theory Spec2Isabelle
  imports Main "HOL-Library.AList" "HOL-Library.Multiset"
begin

section \<open>Data model\<close>

text \<open>
  Go's \<open>error\<close> values as the program tells them apart. The helpers of
  \<open>pkg/utils/http\<close> (\<open>IsQuotaExceeded\<close>, \<open>IsNotFound\<close>, \<open>IgnoreNotFound\<close>) classify a
  backend error as "not found", "quota exceeded" or anything else; the third constructor
  carries the message of any other error, and \<open>Errorf fmt err\<close> is the new error
  that \<open>fmt.Errorf(fmt, err)\<close> builds around \<open>err\<close>.
\<close>

datatype error = NotFound | QuotaExceeded | Other string | Errorf string error

text \<open>
  \<open>api.ManagedCertificate\<close>, with the fields the controller reads:
  \<open>ObjectMeta.Namespace\<close>, \<open>ObjectMeta.Name\<close>, \<open>Spec.Domains\<close> and
  \<open>Status.CertificateName\<close>.
\<close>

record ManagedCertificate =
  Namespace :: string
  Name :: string
  Domains :: "string list"
  CertificateName :: string

text \<open>\<open>compute.SslCertificate\<close>: the snapshot \<open>Get\<close> returns; only its name is read.\<close>

record SslCertificate =
  sslName :: string

text \<open>
  The four notifications of \<open>client.Event\<close>, each attributed to a ManagedCertificate.
\<close>

datatype event =
    EvTooManyCertificates ManagedCertificate error
  | EvBackendError ManagedCertificate error
  | EvCreate ManagedCertificate string
  | EvDelete ManagedCertificate string

text \<open>
  What a call leaves behind besides its result: the notifications recorded by
  \<open>client.Event\<close> and the lines written by \<open>glog.Infof\<close>, both in the order of emission.
\<close>

record effects =
  events :: "event list"
  infos :: "string list"

definition emit :: "event \<Rightarrow> effects \<Rightarrow> effects" where
  "emit e w = w\<lparr>events := events w @ [e]\<rparr>"

definition glog_Infof :: "string \<Rightarrow> effects \<Rightarrow> effects" where
  "glog_Infof msg w = w\<lparr>infos := infos w @ [msg]\<rparr>"

text \<open>
  \<open>client.Ssl\<close>: the provisioning backend as the manager sees it, one response per call.
  A Go function returning \<open>(value, error)\<close> is modelled as returning the pair, the error
  being \<open>None\<close> for \<open>nil\<close>: nothing in the type stops a backend from answering with a
  value and an error together.
\<close>

record SslClient =
  ssl_Create :: "string \<Rightarrow> string list \<Rightarrow> error option"
  ssl_Delete :: "string \<Rightarrow> error option"
  ssl_Exists :: "string \<Rightarrow> bool \<times> error option"
  ssl_Get :: "string \<Rightarrow> SslCertificate option \<times> error option"

section \<open>Error classification (\<open>pkg/utils/http\<close>)\<close>

text \<open>
  Modelled from the spec: \<open>pkg/utils/http\<close> is not among the source files. The spec says
  the backend's errors "are distinguishable into at least not found, quota exceeded, and
  other", and that on delete paths "not found is treated as success".
\<close>

definition IsQuotaExceeded :: "error \<Rightarrow> bool" where
  "IsQuotaExceeded err = (err = QuotaExceeded)"

definition IsNotFound :: "error \<Rightarrow> bool" where
  "IsNotFound err = (err = NotFound)"

definition IgnoreNotFound :: "error option \<Rightarrow> error option" where
  "IgnoreNotFound r =
     (case r of
        None \<Rightarrow> None
      | Some err \<Rightarrow> if IsNotFound err then None else Some err)"

section \<open>Certificate lifecycle manager (\<open>sslcertificatemanager\<close>)\<close>

text \<open>
  \<open>SslCertificateManager.Create\<close>. The ManagedCertificate is passed by value, so a
  notification is always attributed.
\<close>

definition Create ::
  "SslClient \<Rightarrow> string \<Rightarrow> ManagedCertificate \<Rightarrow> effects \<Rightarrow> error option \<times> effects" where
  "Create client sslCertificateName mcrt w =
     (let w1 = glog_Infof (''Creating SslCertificate '' @ sslCertificateName @
                 '' for ManagedCertificate '' @ Namespace mcrt @ '':'' @ Name mcrt) w
      in case ssl_Create client sslCertificateName (Domains mcrt) of
           Some err \<Rightarrow>
             if IsQuotaExceeded err
             then (Some err, emit (EvTooManyCertificates mcrt err) w1)
             else (Some err, emit (EvBackendError mcrt err) w1)
         | None \<Rightarrow>
             (None,
              glog_Infof (''Created SslCertificate '' @ sslCertificateName @
                '' for ManagedCertificate '' @ Namespace mcrt @ '':'' @ Name mcrt)
                (emit (EvCreate mcrt sslCertificateName) w1)))"

text \<open>
  \<open>SslCertificateManager.Delete\<close>. The ManagedCertificate is a pointer: \<open>None\<close> is
  \<open>nil\<close>.
\<close>

definition Delete ::
  "SslClient \<Rightarrow> string \<Rightarrow> ManagedCertificate option \<Rightarrow> effects \<Rightarrow> error option \<times> effects" where
  "Delete client sslCertificateName mcrt w =
     (let w1 = glog_Infof (''Deleting SslCertificate '' @ sslCertificateName) w
      in case IgnoreNotFound (ssl_Delete client sslCertificateName) of
           Some err \<Rightarrow>
             (Some err,
              (case mcrt of
                 Some m \<Rightarrow> emit (EvBackendError m err) w1
               | None \<Rightarrow> w1))
         | None \<Rightarrow>
             (None,
              glog_Infof (''Deleted SslCertificate '' @ sslCertificateName)
                (case mcrt of
                   Some m \<Rightarrow> emit (EvDelete m sslCertificateName) w1
                 | None \<Rightarrow> w1)))"

text \<open>\<open>SslCertificateManager.Exists\<close>: the result is the pair \<open>(bool, error)\<close>.\<close>

definition Exists ::
  "SslClient \<Rightarrow> string \<Rightarrow> ManagedCertificate option \<Rightarrow> effects
     \<Rightarrow> (bool \<times> error option) \<times> effects" where
  "Exists client sslCertificateName mcrt w =
     (case ssl_Exists client sslCertificateName of
        (exists, Some err) \<Rightarrow>
          ((False, Some err),
           (case mcrt of
              Some m \<Rightarrow> emit (EvBackendError m err) w
            | None \<Rightarrow> w))
      | (exists, None) \<Rightarrow> ((exists, None), w))"

text \<open>
  \<open>SslCertificateManager.Get\<close>: the result is the pair \<open>(*compute.SslCertificate, error)\<close>,
  \<open>None\<close> in the first component being the nil pointer.
\<close>

definition Get ::
  "SslClient \<Rightarrow> string \<Rightarrow> ManagedCertificate option \<Rightarrow> effects
     \<Rightarrow> (SslCertificate option \<times> error option) \<times> effects" where
  "Get client sslCertificateName mcrt w =
     (case ssl_Get client sslCertificateName of
        (sslCert, Some err) \<Rightarrow>
          ((None, Some err),
           (case mcrt of
              Some m \<Rightarrow> emit (EvBackendError m err) w
            | None \<Rightarrow> w))
      | (sslCert, None) \<Rightarrow> ((sslCert, None), w))"

section \<open>State store\<close>

text \<open>
  Modelled from the spec: the state store (\<open>newMcertState\<close> and its methods) is not among
  the source files. The spec gives its contract as \<open>Put(key, certName)\<close>,
  \<open>Get(key) -> (certName, found)\<close>, \<open>Delete(key)\<close>, \<open>AllKeys()\<close> and \<open>AllCertNames()\<close>,
  with at most one entry per key; the controller calls the last two
  \<open>GetAllManagedCertificates\<close> and \<open>GetAllSslCertificates\<close> and ranges over what they
  return. The store is an association list from key to certificate name.
\<close>

type_synonym McertState = "(string \<times> string) list"

definition state_Put :: "string \<Rightarrow> string \<Rightarrow> McertState \<Rightarrow> McertState" where
  "state_Put key certName st = AList.update key certName st"

definition state_Get :: "string \<Rightarrow> McertState \<Rightarrow> string option" where
  "state_Get key st = map_of st key"

definition state_Delete :: "string \<Rightarrow> McertState \<Rightarrow> McertState" where
  "state_Delete key st = AList.delete key st"

definition GetAllManagedCertificates :: "McertState \<Rightarrow> string list" where
  "GetAllManagedCertificates st = map fst st"

definition GetAllSslCertificates :: "McertState \<Rightarrow> string list" where
  "GetAllSslCertificates st = map snd st"

section \<open>Provisioning backend of the controller (\<open>sslClient\<close>)\<close>

text \<open>
  Modelled from the spec: the controller's \<open>sslClient\<close> is not among the source files. The
  spec lists the backend's operations (\<open>Delete(name)\<close>,
  \<open>List() -> sequence of certificate summaries\<close>) and says that each may fail. The backend
  holds the names of the provisioned certificates; \<open>listErr\<close> is the error its \<open>List\<close>
  answers with, if any, and \<open>deleteErr name\<close> the error with which it refuses to delete
  \<open>name\<close>, if any. A delete that is not refused removes the certificate, and answers
  "not found" when there is none of that name. \<open>deleteCalls\<close> keeps the names \<open>Delete\<close> has
  been called with, in the order of the calls, whatever it answered: the deletions that
  were attempted.
\<close>

record Provider =
  certs :: "string list"
  listErr :: "error option"
  deleteErr :: "string \<Rightarrow> error option"
  deleteCalls :: "string list"

definition sslClient_List :: "Provider \<Rightarrow> string list \<times> error option" where
  "sslClient_List p =
     (case listErr p of
        Some err \<Rightarrow> ([], Some err)
      | None \<Rightarrow> (certs p, None))"

definition sslClient_Delete :: "string \<Rightarrow> Provider \<Rightarrow> error option \<times> Provider" where
  "sslClient_Delete name p =
     (let p1 = p\<lparr>deleteCalls := deleteCalls p @ [name]\<rparr>
      in case deleteErr p name of
           Some err \<Rightarrow> (Some err, p1)
         | None \<Rightarrow>
             if name \<in> set (certs p)
             then (None, p1\<lparr>certs := removeAll name (certs p)\<rparr>)
             else (Some NotFound, p1))"

section \<open>Managed-certificate controller (\<open>McertController\<close>)\<close>

text \<open>
  What the controller writes to its logs: a line of \<open>glog.Infof\<close>, or an error handed to
  \<open>runtime.HandleError\<close>.
\<close>

datatype log_entry = Infof string | HandleError error

text \<open>
  The controller with the fields its methods use. \<open>lister\<close> is what
  \<open>c.lister.List(labels.Everything())\<close> answers, the listing of the informer's cache and
  an error. \<open>queue\<close> holds the keys handed to \<open>c.queue.AddRateLimited\<close>, in the order of
  the calls: the rate-limiting work queue of client-go adds each after its back-off delay
  and drops a key that is already pending, which is outside this model.
\<close>

record McertController =
  lister :: "ManagedCertificate list \<times> error option"
  state :: McertState
  queue :: "string list"
  queueShutDown :: bool
  sslClient :: Provider
  glog :: "log_entry list"

definition logged :: "log_entry \<Rightarrow> McertController \<Rightarrow> McertController" where
  "logged l c = c\<lparr>glog := glog c @ [l]\<rparr>"

text \<open>
  An object handed to \<open>enqueue\<close> as \<open>interface{}\<close>: a ManagedCertificate, an explicit key,
  or a value that carries no object metadata.
\<close>

datatype obj = McertObj ManagedCertificate | ExplicitKey string | NoMeta

text \<open>
  \<open>cache.MetaNamespaceKeyFunc\<close> of client-go: an explicit key is returned as it is, an
  object without metadata is the error
  \<open>fmt.Errorf("object has no meta: %v", err)\<close> around the error of \<open>meta.Accessor\<close>, and
  an object's key is \<open>namespace/name\<close>, or \<open>name\<close> alone when the namespace is empty.
\<close>

definition MetaNamespaceKeyFunc :: "obj \<Rightarrow> string \<times> error option" where
  "MetaNamespaceKeyFunc ob =
     (case ob of
        ExplicitKey key \<Rightarrow> (key, None)
      | NoMeta \<Rightarrow>
          ([], Some (Errorf ''object has no meta: %v''
                       (Other ''object does not implement the Object interfaces'')))
      | McertObj m \<Rightarrow>
          if length (Namespace m) > 0
          then (Namespace m @ ''/'' @ Name m, None)
          else (Name m, None))"

text \<open>\<open>McertController.initializeState\<close>.\<close>

definition initializeState :: "McertController \<Rightarrow> error option \<times> McertController" where
  "initializeState c =
     (case lister c of
        (mcerts, Some err) \<Rightarrow> (Some err, c)
      | (mcerts, None) \<Rightarrow>
          (None,
           fold (\<lambda>mcert c'. c'\<lparr>state := state_Put (Name mcert) (CertificateName mcert) (state c')\<rparr>)
             mcerts c))"

text \<open>\<open>McertController.enqueue\<close>.\<close>

definition enqueue :: "obj \<Rightarrow> McertController \<Rightarrow> McertController" where
  "enqueue ob c =
     (case MetaNamespaceKeyFunc ob of
        (key, Some err) \<Rightarrow> logged (HandleError err) c
      | (key, None) \<Rightarrow> c\<lparr>queue := queue c @ [key]\<rparr>)"

text \<open>
  \<open>McertController.getAllMcertsInCluster\<close>. The Go map \<open>result\<close> is an association list
  with one entry per key: assigning to a key that is present replaces its value.
\<close>

definition getAllMcertsInCluster ::
  "McertController \<Rightarrow> (string \<times> ManagedCertificate) list \<times> error option" where
  "getAllMcertsInCluster c =
     (case lister c of
        (mcerts, Some err) \<Rightarrow> ([], Some err)
      | (mcerts, None) \<Rightarrow>
          (fold (\<lambda>mcert result. AList.update (Name mcert) mcert result) mcerts [], None))"

text \<open>\<open>McertController.deleteObsoleteMcertsFromState\<close>.\<close>

definition deleteObsoleteMcertsFromState ::
  "(string \<times> ManagedCertificate) list \<Rightarrow> McertController \<Rightarrow> McertController" where
  "deleteObsoleteMcertsFromState allMcertsInCluster c =
     fold (\<lambda>knownMcert c'.
            if map_of allMcertsInCluster knownMcert = None
            then logged (Infof (''Deleted '' @ knownMcert @
                   '' managed certificate from state, because such custom object does not exist in the cluster (any more?)''))
                   (c'\<lparr>state := state_Delete knownMcert (state c')\<rparr>)
            else c')
       (GetAllManagedCertificates (state c)) c"

text \<open>
  \<open>McertController.deleteObsoleteSslCertificates\<close>. The set \<open>allKnownSslCertsSet\<close> is a Go
  \<open>map[string]bool\<close>; a lookup of an absent key gives \<open>exists = false\<close>. What
  \<open>c.sslClient.Delete\<close> returns is dropped: the call is a statement of its own.
\<close>

definition deleteObsoleteSslCertificates :: "McertController \<Rightarrow> error option \<times> McertController" where
  "deleteObsoleteSslCertificates c =
     (let allKnownSslCerts = GetAllSslCertificates (state c);
          allKnownSslCertsSet =
            fold (\<lambda>knownSslCert s. AList.update knownSslCert True s) allKnownSslCerts []
      in case sslClient_List (sslClient c) of
           (sslCerts, Some err) \<Rightarrow> (Some err, c)
         | (sslCerts, None) \<Rightarrow>
             (None,
              fold (\<lambda>sslCert c'.
                     (case map_of allKnownSslCertsSet sslCert of
                        Some True \<Rightarrow> c'
                      | _ \<Rightarrow>
                          logged (Infof (''Deleted '' @ sslCert @
                            '' SslCertificate resource, because there is no such ssl certificate in state''))
                            (c'\<lparr>sslClient := snd (sslClient_Delete sslCert (sslClient c'))\<rparr>)))
                sslCerts c))"

text \<open>
  \<open>McertController.synchronizeAllMcerts\<close>, one resync pass. Go leaves open the order in
  which \<open>range\<close> visits the entries of a map, and it may differ from run to run. The
  order this run takes is the argument \<open>rangeOrder\<close>: it maps the entries of
  \<open>allMcertsInCluster\<close> to the sequence in which the last loop visits them, some
  permutation of them.
\<close>

definition synchronizeAllMcerts ::
  "((string \<times> ManagedCertificate) list \<Rightarrow> (string \<times> ManagedCertificate) list)
     \<Rightarrow> McertController \<Rightarrow> McertController" where
  "synchronizeAllMcerts rangeOrder c =
     (case getAllMcertsInCluster c of
        (allMcertsInCluster, Some err) \<Rightarrow> logged (HandleError err) c
      | (allMcertsInCluster, None) \<Rightarrow>
          (let c1 = deleteObsoleteMcertsFromState allMcertsInCluster c
           in case deleteObsoleteSslCertificates c1 of
                (Some err, c2) \<Rightarrow> logged (HandleError err) c2
              | (None, c2) \<Rightarrow>
                  fold (\<lambda>(key, mcert) c'. enqueue (McertObj mcert) c')
                    (rangeOrder allMcertsInCluster) c2))"

section \<open>Start-up (\<open>McertController.Run\<close> and \<open>Controller.Run\<close>)\<close>

text \<open>
  The goroutines the two \<open>Run\<close> methods start with a \<open>go\<close> statement:
  \<open>go c.Mcert.Run(mcertStopChannel, errors)\<close>, \<open>go c.Ingress.Run(ingressStopChannel)\<close>
  and \<open>go wait.Until(c.runIngressWorker, time.Second, stopChannel)\<close> in
  \<open>Controller.Run\<close>; \<open>go wait.Until(c.runWorker, time.Second, stopChannel)\<close> and
  \<open>go wait.Until(c.synchronizeAllMcerts, time.Minute, stopChannel)\<close> in
  \<open>McertController.Run\<close>.
\<close>

datatype goroutine =
    Go_Mcert_Run
  | Go_Ingress_Run
  | Go_runIngressWorker
  | Go_runWorker
  | Go_synchronizeAllMcerts

text \<open>
  \<open>McertController.Run\<close>, up to the point where it returns or waits for the stop signal:
  the error it sends on \<open>errors\<close> (if any), the goroutines it has started, and the
  controller. When it returns, the deferred \<open>c.queue.ShutDown()\<close> has run.
\<close>

definition McertController_Run ::
  "McertController \<Rightarrow> error option \<times> goroutine list \<times> McertController" where
  "McertController_Run c =
     (case initializeState c of
        (Some err, c1) \<Rightarrow>
          (Some (Errorf ''Cnuld not intialize state: %v'' err), [], c1\<lparr>queueShutDown := True\<rparr>)
      | (None, c1) \<Rightarrow>
          (None, [Go_runWorker, Go_synchronizeAllMcerts], c1))"

text \<open>
  The controller of \<open>controller.go\<close>: its managed-certificate part, and what
  \<open>cache.WaitForCacheSync(stopChannel, c.Mcert.synced)\<close> answers.
\<close>

record Controller =
  Mcert :: McertController
  cacheSynced :: bool

text \<open>
  \<open>Controller.Run\<close>, up to its \<open>select\<close>. When the cache does not sync it returns the
  time-out error and starts nothing. Otherwise its three \<open>go\<close> statements run one after
  the other, none of them under a condition; the channel \<open>errors\<close> is unbuffered, so an
  error sent by \<open>McertController.Run\<close> is received only at the \<open>select\<close>, after all three.
  The result is the error returned before the \<open>select\<close> (if any), every goroutine started
  (those of \<open>Controller.Run\<close> first, then those of \<open>McertController.Run\<close>), the error
  waiting on \<open>errors\<close> (if any), and the controller. The stop signal and the sends of
  \<open>quit\<close> are not modelled.
\<close>

definition Controller_Run ::
  "Controller \<Rightarrow> error option \<times> goroutine list \<times> error option \<times> Controller" where
  "Controller_Run c =
     (if \<not> cacheSynced c
      then (Some (Other ''Timed out waiting for cache sync''), [], None, c)
      else (case McertController_Run (Mcert c) of
              (sent, started, m) \<Rightarrow>
                (None,
                 [Go_Mcert_Run, Go_Ingress_Run, Go_runIngressWorker] @ started,
                 sent,
                 c\<lparr>Mcert := m\<rparr>)))"

section \<open>The custom resource definition of \<open>deployCRD\<close>\<close>

text \<open>
  \<open>apiextv1beta1.JSONSchemaProps\<close> with the fields \<open>deployCRD\<close> sets. A field the Go
  literal leaves out has its zero value: the empty string, the empty list, \<open>None\<close> for a
  nil pointer. \<open>Properties\<close> is a Go map, written as an association list.
\<close>

datatype JSONSchemaProps = JSONSchemaProps
  (Type: string)
  (Format: string)
  (Required: "string list")
  (Properties: "(string \<times> JSONSchemaProps) list")
  (Items: "JSONSchemaProps option")
  (MaxItems: "int option")
  (MaxLength: "int option")
  (Pattern: string)

record CustomResourceDefinitionVersion =
  VersionName :: string
  Served :: bool
  Storage :: bool
  OpenAPIV3Schema :: "JSONSchemaProps option"

record CustomResourceDefinitionNames =
  Plural :: string
  Singular :: string
  Kind :: string
  ShortNames :: "string list"

record CustomResourceDefinition =
  crdName :: string
  Group :: string
  Versions :: "CustomResourceDefinitionVersion list"
  Names :: CustomResourceDefinitionNames
  Scope :: string

text \<open>The locals of \<open>deployCRD\<close>. The backslash of the pattern is character 0x5C.\<close>

definition domainRegex :: string where
  "domainRegex =
     ''^(([a-zA-Z0-9]+|[a-zA-Z0-9][-a-zA-Z0-9]*[a-zA-Z0-9])'' @ [CHR 0x5C] @
     ''.)+[a-zA-Z][-a-zA-Z0-9]*[a-zA-Z0-9]'' @ [CHR 0x5C] @ ''.?$''"

definition maxDomains1 :: int where
  "maxDomains1 = 1"

definition maxDomains100 :: int where
  "maxDomains100 = 100"

definition maxDomainLength :: int where
  "maxDomainLength = 63"

text \<open>The \<open>status\<close> block, the same literal in both versions.\<close>

definition statusSchema :: JSONSchemaProps where
  "statusSchema =
     JSONSchemaProps [] [] []
       [(''certificateStatus'', JSONSchemaProps ''string'' [] [] [] None None None []),
        (''domainStatus'',
           JSONSchemaProps ''array'' [] [] []
             (Some (JSONSchemaProps ''object'' [] [''domain'', ''status'']
                      [(''domain'', JSONSchemaProps ''string'' [] [] [] None None None []),
                       (''status'', JSONSchemaProps ''string'' [] [] [] None None None [])]
                      None None None []))
             None None []),
        (''certificateName'', JSONSchemaProps ''string'' [] [] [] None None None []),
        (''expireTime'', JSONSchemaProps ''string'' ''date-time'' [] [] None None None [])]
       None None None []"

text \<open>
  The \<open>spec\<close> block; the two versions differ in \<open>MaxItems\<close> only, which is the argument.
\<close>

definition specSchema :: "int \<Rightarrow> JSONSchemaProps" where
  "specSchema maxDomains =
     JSONSchemaProps [] [] []
       [(''domains'',
           JSONSchemaProps ''array'' [] [] []
             (Some (JSONSchemaProps ''string'' [] [] [] None None (Some maxDomainLength)
                      domainRegex))
             (Some maxDomains) None [])]
       None None None []"

definition crd :: CustomResourceDefinition where
  "crd =
     \<lparr>crdName = ''managedcertificates.networking.gke.io'',
      Group = ''networking.gke.io'',
      Versions =
        [\<lparr>VersionName = ''v1beta1'', Served = True, Storage = False,
          OpenAPIV3Schema =
            Some (JSONSchemaProps [] [] []
                    [(''status'', statusSchema), (''spec'', specSchema maxDomains1)]
                    None None None [])\<rparr>,
         \<lparr>VersionName = ''v1beta2'', Served = True, Storage = True,
          OpenAPIV3Schema =
            Some (JSONSchemaProps [] [] []
                    [(''status'', statusSchema), (''spec'', specSchema maxDomains100)]
                    None None None [])\<rparr>],
      Names =
        \<lparr>Plural = ''managedcertificates'', Singular = ''managedcertificate'',
         Kind = ''ManagedCertificate'', ShortNames = [''mcrt'']\<rparr>,
      Scope = ''Namespaced''\<rparr>"

section \<open>Validation against the schema\<close>

text \<open>
  A JSON value, as the API server receives a custom resource.
\<close>

datatype json =
    JNull
  | JBool bool
  | JNumber int
  | JString string
  | JArray "json list"
  | JObject "(string \<times> json) list"

text \<open>
  The two string checks the validator takes from libraries: \<open>MatchString pattern s\<close> is
  Go's \<open>regexp.MatchString\<close>, and \<open>FormatOK format s\<close> the check of a named format
  (\<open>date-time\<close>). They are parameters of the validation.
\<close>

record StringChecks =
  MatchString :: "string \<Rightarrow> string \<Rightarrow> bool"
  FormatOK :: "string \<Rightarrow> string \<Rightarrow> bool"

text \<open>The keyword \<open>type\<close>; an empty \<open>Type\<close> admits every value.\<close>

definition type_ok :: "string \<Rightarrow> json \<Rightarrow> bool" where
  "type_ok t v =
     (t = [] \<or>
      (case v of
         JNull \<Rightarrow> t = ''null''
       | JBool b \<Rightarrow> t = ''boolean''
       | JNumber n \<Rightarrow> t = ''number'' \<or> t = ''integer''
       | JString s \<Rightarrow> t = ''string''
       | JArray xs \<Rightarrow> t = ''array''
       | JObject kvs \<Rightarrow> t = ''object''))"

text \<open>
  The keywords of JSON Schema that \<open>deployCRD\<close> uses, as the API server applies an
  OpenAPI v3 schema: \<open>maxLength\<close>, \<open>pattern\<close> and \<open>format\<close> constrain a string,
  \<open>maxItems\<close> and \<open>items\<close> an array, \<open>required\<close> and \<open>properties\<close> an object; a keyword
  does not constrain a value of another kind, and a property that is absent from an object
  is not checked. \<open>maxLength\<close> counts characters, which for the ASCII strings the pattern
  admits are bytes.
\<close>

fun validates :: "StringChecks \<Rightarrow> JSONSchemaProps \<Rightarrow> json \<Rightarrow> bool" where
  "validates lib (JSONSchemaProps ty fmt req props items maxItems maxLength pat) v =
     (type_ok ty v \<and>
      (case v of
         JString s \<Rightarrow>
           (case maxLength of None \<Rightarrow> True | Some n \<Rightarrow> int (length s) \<le> n) \<and>
           (pat = [] \<or> MatchString lib pat s) \<and>
           (fmt = [] \<or> FormatOK lib fmt s)
       | JArray xs \<Rightarrow>
           (case maxItems of None \<Rightarrow> True | Some n \<Rightarrow> int (length xs) \<le> n) \<and>
           (case items of
              None \<Rightarrow> True
            | Some sub \<Rightarrow> list_all (\<lambda>x. validates lib sub x) xs)
       | JObject kvs \<Rightarrow>
           list_all (\<lambda>r. map_of kvs r \<noteq> None) req \<and>
           list_all (\<lambda>p. case map_of kvs (fst p) of
                            None \<Rightarrow> True
                          | Some x \<Rightarrow> validates lib (snd p) x) props
       | _ \<Rightarrow> True))"

text \<open>
  A custom resource whose \<open>spec.domains\<close> is the list \<open>ds\<close>, and the schema of a version
  of the definition by name.
\<close>

definition mcrt_with_domains :: "string list \<Rightarrow> json" where
  "mcrt_with_domains ds = JObject [(''spec'', JObject [(''domains'', JArray (map JString ds))])]"

definition schema_of :: "string \<Rightarrow> JSONSchemaProps option" where
  "schema_of version =
     (case filter (\<lambda>v. VersionName v = version) (Versions crd) of
        [] \<Rightarrow> None
      | v # _ \<Rightarrow> OpenAPIV3Schema v)"

definition accepts :: "StringChecks \<Rightarrow> string \<Rightarrow> json \<Rightarrow> bool" where
  "accepts lib version v =
     (case schema_of version of
        None \<Rightarrow> False
      | Some s \<Rightarrow> validates lib s v)"

subsection \<open>The pattern as a regular expression\<close>

text \<open>
  Regular expressions over characters, matched by derivatives. A class lists its
  characters.
\<close>

datatype rexp =
    Zero
  | One
  | Class string
  | Alt rexp rexp
  | Seq rexp rexp
  | Star rexp

definition Plus :: "rexp \<Rightarrow> rexp" where
  "Plus r = Seq r (Star r)"

definition Opt :: "rexp \<Rightarrow> rexp" where
  "Opt r = Alt r One"

fun nullable :: "rexp \<Rightarrow> bool" where
  "nullable Zero = False"
| "nullable One = True"
| "nullable (Class cs) = False"
| "nullable (Alt r s) = (nullable r \<or> nullable s)"
| "nullable (Seq r s) = (nullable r \<and> nullable s)"
| "nullable (Star r) = True"

fun deriv :: "char \<Rightarrow> rexp \<Rightarrow> rexp" where
  "deriv c Zero = Zero"
| "deriv c One = Zero"
| "deriv c (Class cs) = (if c \<in> set cs then One else Zero)"
| "deriv c (Alt r s) = Alt (deriv c r) (deriv c s)"
| "deriv c (Seq r s) =
     (if nullable r then Alt (Seq (deriv c r) s) (deriv c s) else Seq (deriv c r) s)"
| "deriv c (Star r) = Seq (deriv c r) (Star r)"

definition matches :: "rexp \<Rightarrow> string \<Rightarrow> bool" where
  "matches r s = nullable (fold deriv s r)"

text \<open>
  \<open>domainRegex\<close> read as a regular expression: between \<open>^\<close> and \<open>$\<close>, one or more labels
  each followed by a dot, then a last label that starts with a letter and has at least two
  characters, then an optional dot.
\<close>

definition alpha :: string where
  "alpha = ''abcdefghijklmnopqrstuvwxyzABCDEFGHIJKLMNOPQRSTUVWXYZ''"

definition alnum :: string where
  "alnum = alpha @ ''0123456789''"

definition domainRexp :: rexp where
  "domainRexp =
     Seq (Plus (Seq (Alt (Plus (Class alnum))
                         (Seq (Class alnum) (Seq (Star (Class (''-'' @ alnum))) (Class alnum))))
                    (Class ''.'')))
         (Seq (Class alpha)
              (Seq (Star (Class (''-'' @ alnum)))
                   (Seq (Class alnum) (Opt (Class ''.'')))))"

text \<open>
  String checks that know \<open>domainRegex\<close> and no other pattern, and admit every format.
\<close>

definition domainChecks :: StringChecks where
  "domainChecks =
     \<lparr>MatchString = (\<lambda>pat s. pat = domainRegex \<and> matches domainRexp s),
      FormatOK = (\<lambda>fmt s. True)\<rparr>"

section \<open>Example inputs\<close>

text \<open>
  The resource \<open>ns/foo\<close> of the spec's scenario, a second one in another namespace, and a
  third that shares the name of the first and the namespace of the second.
\<close>

definition mcrtFoo :: ManagedCertificate where
  "mcrtFoo =
     \<lparr>Namespace = ''ns'', Name = ''foo'', Domains = [''a.example.com''],
      CertificateName = ''cert-foo''\<rparr>"

definition mcrtBar :: ManagedCertificate where
  "mcrtBar =
     \<lparr>Namespace = ''other'', Name = ''bar'', Domains = [''b.example.com''],
      CertificateName = ''cert-bar''\<rparr>"

definition mcrtOtherFoo :: ManagedCertificate where
  "mcrtOtherFoo =
     \<lparr>Namespace = ''other'', Name = ''foo'', Domains = [''c.example.com''],
      CertificateName = ''cert-other-foo''\<rparr>"

definition noEffects :: effects where
  "noEffects = \<lparr>events = [], infos = []\<rparr>"

text \<open>
  A backend that answers every call with the error \<open>r\<close> (\<open>None\<close>: with success), and that
  answers \<open>Exists\<close> and \<open>Get\<close> with a value besides.
\<close>

definition answering :: "error option \<Rightarrow> SslClient" where
  "answering r =
     \<lparr>ssl_Create = (\<lambda>name domains. r),
      ssl_Delete = (\<lambda>name. r),
      ssl_Exists = (\<lambda>name. (True, r)),
      ssl_Get = (\<lambda>name. (Some \<lparr>sslName = name\<rparr>, r))\<rparr>"

text \<open>
  A controller that lists \<open>mcerts\<close>, holds the state \<open>st\<close>, and whose backend holds the
  certificates \<open>cs\<close>, answers \<open>List\<close> with \<open>le\<close> and refuses to delete the names in
  \<open>refused\<close>; nothing is enqueued, logged or attempted yet.
\<close>

definition controllerOf ::
  "ManagedCertificate list \<times> error option \<Rightarrow> McertState \<Rightarrow> string list \<Rightarrow> error option
     \<Rightarrow> string list \<Rightarrow> McertController" where
  "controllerOf l st cs le refused =
     \<lparr>lister = l, state = st, queue = [], queueShutDown = False,
      sslClient =
        \<lparr>certs = cs, listErr = le,
         deleteErr = (\<lambda>name. if name \<in> set refused then Some (Other ''backend refused'') else None),
         deleteCalls = []\<rparr>,
      glog = []\<rparr>"

section \<open>Properties of the certificate lifecycle manager\<close>

text \<open>
  Claim C1, at the input where it fails. The backend answers \<open>Delete\<close> of \<open>cert-foo\<close> with
  "not found": the certificate is absent. Called for the resource \<open>ns/foo\<close>, the manager's
  \<open>Delete\<close> returns success and records a \<open>Delete\<close> notification for a certificate that
  was never deleted, although its own comment promises that notification "if the
  SslCertificate object exists and is successfully deleted".
\<close>

theorem Delete_of_absent_certificate_emits_Delete:
  "ssl_Delete (answering (Some NotFound)) ''cert-foo'' = Some NotFound \<and>
   Delete (answering (Some NotFound)) ''cert-foo'' (Some mcrtFoo) noEffects =
     (None,
      \<lparr>events = [EvDelete mcrtFoo ''cert-foo''],
       infos = [''Deleting SslCertificate cert-foo'', ''Deleted SslCertificate cert-foo'']\<rparr>)"
  by (simp add: Delete_def answering_def IgnoreNotFound_def IsNotFound_def glog_Infof_def
      emit_def noEffects_def Let_def)

text \<open>
  Claim C6: \<open>Create\<close> records exactly one notification and returns what the backend
  answered. On a quota-exceeded error the notification is \<open>TooManyCertificates\<close>, on any
  other error it is \<open>BackendError\<close>, and on success it is \<open>Create\<close>; in the first two cases
  the error is returned, in the third \<open>nil\<close>.
\<close>

theorem Create_emits_one_notification:
  "(\<forall>err. ssl_Create client name (Domains mcrt) = Some err \<and> IsQuotaExceeded err \<longrightarrow>
      fst (Create client name mcrt w) = Some err \<and>
      events (snd (Create client name mcrt w)) = events w @ [EvTooManyCertificates mcrt err]) \<and>
   (\<forall>err. ssl_Create client name (Domains mcrt) = Some err \<and> \<not> IsQuotaExceeded err \<longrightarrow>
      fst (Create client name mcrt w) = Some err \<and>
      events (snd (Create client name mcrt w)) = events w @ [EvBackendError mcrt err]) \<and>
   (ssl_Create client name (Domains mcrt) = None \<longrightarrow>
      fst (Create client name mcrt w) = None \<and>
      events (snd (Create client name mcrt w)) = events w @ [EvCreate mcrt name])"
  by (simp add: Create_def emit_def glog_Infof_def Let_def)

text \<open>
  The three cases of C6 at concrete backends: one out of quota, one failing otherwise, one
  succeeding.
\<close>

theorem Create_emits_one_notification_witness:
  "Create (answering (Some QuotaExceeded)) ''cert-foo'' mcrtFoo noEffects =
     (Some QuotaExceeded,
      \<lparr>events = [EvTooManyCertificates mcrtFoo QuotaExceeded],
       infos = [''Creating SslCertificate cert-foo for ManagedCertificate ns:foo'']\<rparr>) \<and>
   fst (Create (answering (Some (Other ''boom''))) ''cert-foo'' mcrtFoo noEffects) =
     Some (Other ''boom'') \<and>
   events (snd (Create (answering (Some (Other ''boom''))) ''cert-foo'' mcrtFoo noEffects)) =
     [EvBackendError mcrtFoo (Other ''boom'')] \<and>
   fst (Create (answering None) ''cert-foo'' mcrtFoo noEffects) = None \<and>
   events (snd (Create (answering None) ''cert-foo'' mcrtFoo noEffects)) =
     [EvCreate mcrtFoo ''cert-foo'']"
  using Create_emits_one_notification
      [of "answering (Some QuotaExceeded)" "''cert-foo''" mcrtFoo noEffects]
    Create_emits_one_notification
      [of "answering (Some (Other ''boom''))" "''cert-foo''" mcrtFoo noEffects]
    Create_emits_one_notification [of "answering None" "''cert-foo''" mcrtFoo noEffects]
  by (simp add: answering_def noEffects_def IsQuotaExceeded_def Create_def glog_Infof_def
      emit_def mcrtFoo_def Let_def)

lemma Delete_nil_events: "events (snd (Delete client name None w)) = events w"
  by (simp add: Delete_def glog_Infof_def Let_def split: option.split)

lemma Exists_nil_events: "events (snd (Exists client name None w)) = events w"
  by (simp add: Exists_def split: option.split prod.split)

lemma Get_nil_events: "events (snd (Get client name None w)) = events w"
  by (simp add: Get_def split: option.split prod.split)

text \<open>
  Claim C8: called with a nil ManagedCertificate, \<open>Delete\<close>, \<open>Exists\<close> and \<open>Get\<close> record no
  notification, whatever the backend answers.
\<close>

theorem nil_context_emits_nothing:
  "events (snd (Delete client name None w)) = events w \<and>
   events (snd (Exists client name None w)) = events w \<and>
   events (snd (Get client name None w)) = events w"
  by (simp only: Delete_nil_events Exists_nil_events Get_nil_events)

text \<open>
  Claim C9: when \<open>Exists\<close> returns an error its boolean is false, and when \<open>Get\<close> returns an
  error its certificate is nil.
\<close>

theorem error_excludes_result:
  "(snd (fst (Exists client name mcrt w)) \<noteq> None \<longrightarrow>
      fst (fst (Exists client name mcrt w)) = False) \<and>
   (snd (fst (Get client name mcrt w)) \<noteq> None \<longrightarrow>
      fst (fst (Get client name mcrt w)) = None)"
  by (simp add: Exists_def Get_def split: option.split prod.split)

text \<open>
  C9 at a backend that answers \<open>Exists\<close> with \<open>true\<close> and \<open>Get\<close> with a certificate, each
  together with an error: the manager passes on the error alone.
\<close>

theorem error_excludes_result_witness:
  "ssl_Exists (answering (Some (Other ''boom''))) ''cert-foo'' = (True, Some (Other ''boom'')) \<and>
   fst (Exists (answering (Some (Other ''boom''))) ''cert-foo'' (Some mcrtFoo) noEffects) =
     (False, Some (Other ''boom'')) \<and>
   ssl_Get (answering (Some (Other ''boom''))) ''cert-foo'' =
     (Some \<lparr>sslName = ''cert-foo''\<rparr>, Some (Other ''boom'')) \<and>
   fst (Get (answering (Some (Other ''boom''))) ''cert-foo'' (Some mcrtFoo) noEffects) =
     (None, Some (Other ''boom''))"
  using error_excludes_result
      [of "answering (Some (Other ''boom''))" "''cert-foo''" "Some mcrtFoo" noEffects]
  by (simp add: answering_def Exists_def Get_def)

section \<open>Properties of the managed-certificate controller\<close>

subsection \<open>Association lists built by repeated update\<close>


lemma fold_update_keys:
  "fst ` set (fold (\<lambda>m r. AList.update (f m) (g m) r) ms r0) = fst ` set r0 \<union> f ` set ms"
  by (induction ms arbitrary: r0) (auto simp: AList.dom_update)

lemma fold_update_distinct:
  "distinct (map fst r0) \<Longrightarrow> distinct (map fst (fold (\<lambda>m r. AList.update (f m) (g m) r) ms r0))"
  by (induction ms arbitrary: r0) (simp_all add: AList.distinct_update)

lemma update_fresh: "k \<notin> fst ` set r0 \<Longrightarrow> AList.update k v r0 = r0 @ [(k, v)]"
  by (induction r0) auto

lemma fold_update_fresh:
  "distinct (map f ms) \<Longrightarrow> f ` set ms \<inter> fst ` set r0 = {} \<Longrightarrow>
   fold (\<lambda>m r. AList.update (f m) (g m) r) ms r0 = r0 @ map (\<lambda>m. (f m, g m)) ms"
proof (induction ms arbitrary: r0)
  case Nil
  show ?case by simp
next
  case (Cons m ms)
  have fresh: "f m \<notin> fst ` set r0" using Cons.prems by auto
  have u: "AList.update (f m) (g m) r0 = r0 @ [(f m, g m)]"
    using fresh by (rule update_fresh)
  have d: "distinct (map f ms)" using Cons.prems by simp
  have i: "f ` set ms \<inter> fst ` set (r0 @ [(f m, g m)]) = {}"
    using Cons.prems by auto
  show ?case
    using Cons.IH [OF d i] by (simp add: u)
qed

lemma update_entries:
  "(k, v) \<in> set (AList.update k' v' r0) \<Longrightarrow> (k, v) \<in> set r0 \<or> (k = k' \<and> v = v')"
  by (induction r0) (auto split: if_splits)

lemma fold_update_entries:
  "(k, v) \<in> set (fold (\<lambda>m r. AList.update (f m) (g m) r) ms r0) \<Longrightarrow>
   (k, v) \<in> set r0 \<or> (\<exists>m\<in>set ms. k = f m \<and> v = g m)"
proof (induction ms arbitrary: r0)
  case Nil
  then show ?case by simp
next
  case (Cons m ms)
  from Cons.prems have "(k, v) \<in> set (fold (\<lambda>m r. AList.update (f m) (g m) r) ms (AList.update (f m) (g m) r0))"
    by simp
  from Cons.IH [OF this] show ?case
    using update_entries [of k v "f m" "g m" r0] by auto
qed

subsection \<open>The loops of the controller\<close>

lemma fold_Put_state:
  "state (fold (\<lambda>mcert c'. c'\<lparr>state := state_Put (Name mcert) (CertificateName mcert) (state c')\<rparr>) ms c)
     = fold (\<lambda>m r. AList.update (Name m) (CertificateName m) r) ms (state c)"
  by (induction ms arbitrary: c) (simp_all add: state_Put_def)

lemma initializeState_keys:
  assumes "lister c = (mcerts, None)"
  shows "fst (initializeState c) = None"
    and "fst ` set (state (snd (initializeState c))) = fst ` set (state c) \<union> Name ` set mcerts"
  using assms by (simp_all add: initializeState_def fold_Put_state fold_update_keys)

lemma initializeState_fails:
  assumes "lister c = (mcerts, Some err)"
  shows "initializeState c = (Some err, c)"
  using assms by (simp add: initializeState_def)

lemma getAllMcertsInCluster_ok:
  assumes "lister c = (mcerts, None)"
  shows "getAllMcertsInCluster c =
           (fold (\<lambda>mcert result. AList.update (Name mcert) mcert result) mcerts [], None)"
  using assms by (simp add: getAllMcertsInCluster_def)

lemma delete_loop_state:
  "state (fold (\<lambda>knownMcert c'.
            if map_of al knownMcert = None
            then logged (Infof (msg knownMcert)) (c'\<lparr>state := state_Delete knownMcert (state c')\<rparr>)
            else c') ks c)
     = filter (\<lambda>e. \<not> (fst e \<in> set ks \<and> map_of al (fst e) = None)) (state c)"
proof (induction ks arbitrary: c)
  case Nil
  show ?case by simp
next
  case (Cons k ks)
  show ?case
    by (cases "map_of al k = None")
      (auto simp: Cons.IH logged_def state_Delete_def AList.delete_eq intro!: filter_cong)
qed

lemma delete_loop_frame:
  "sslClient (fold (\<lambda>knownMcert c'.
            if map_of al knownMcert = None
            then logged (Infof (msg knownMcert)) (c'\<lparr>state := state_Delete knownMcert (state c')\<rparr>)
            else c') ks c) = sslClient c \<and>
   queue (fold (\<lambda>knownMcert c'.
            if map_of al knownMcert = None
            then logged (Infof (msg knownMcert)) (c'\<lparr>state := state_Delete knownMcert (state c')\<rparr>)
            else c') ks c) = queue c"
  by (induction ks arbitrary: c) (simp_all add: logged_def)

lemma deleteObsoleteMcertsFromState_state:
  "state (deleteObsoleteMcertsFromState al c) = filter (\<lambda>e. map_of al (fst e) \<noteq> None) (state c)"
  unfolding deleteObsoleteMcertsFromState_def delete_loop_state GetAllManagedCertificates_def
  by (rule filter_cong) auto

lemma deleteObsoleteMcertsFromState_frame:
  "sslClient (deleteObsoleteMcertsFromState al c) = sslClient c \<and>
   queue (deleteObsoleteMcertsFromState al c) = queue c"
  unfolding deleteObsoleteMcertsFromState_def by (rule delete_loop_frame)

lemma known_set:
  "map_of (fold (\<lambda>knownSslCert s. AList.update knownSslCert True s) ks s0) n =
     (if n \<in> set ks then Some True else map_of s0 n)"
  by (induction ks arbitrary: s0) (simp_all add: AList.update_conv')

lemma sslClient_Delete_certs:
  "certs (snd (sslClient_Delete n p)) =
     (if deleteErr p n = None then filter (\<lambda>x. x \<noteq> n) (certs p) else certs p)"
  by (auto simp: sslClient_Delete_def Let_def removeAll_filter_not_eq split: option.split
      intro!: filter_cong filter_True [symmetric])

lemma sslClient_Delete_frame:
  "deleteErr (snd (sslClient_Delete n p)) = deleteErr p \<and>
   listErr (snd (sslClient_Delete n p)) = listErr p"
  by (simp add: sslClient_Delete_def Let_def split: option.split)

lemma sslClient_Delete_calls:
  "deleteCalls (snd (sslClient_Delete n p)) = deleteCalls p @ [n]"
  by (simp add: sslClient_Delete_def Let_def split: option.split)

lemma ssl_loop_frame:
  "deleteErr (sslClient (fold (\<lambda>sslCert c'.
       (case known sslCert of
          Some True \<Rightarrow> c'
        | _ \<Rightarrow> logged (Infof (msg sslCert))
                 (c'\<lparr>sslClient := snd (sslClient_Delete sslCert (sslClient c'))\<rparr>))) items c))
     = deleteErr (sslClient c) \<and>
   state (fold (\<lambda>sslCert c'.
       (case known sslCert of
          Some True \<Rightarrow> c'
        | _ \<Rightarrow> logged (Infof (msg sslCert))
                 (c'\<lparr>sslClient := snd (sslClient_Delete sslCert (sslClient c'))\<rparr>))) items c)
     = state c \<and>
   queue (fold (\<lambda>sslCert c'.
       (case known sslCert of
          Some True \<Rightarrow> c'
        | _ \<Rightarrow> logged (Infof (msg sslCert))
                 (c'\<lparr>sslClient := snd (sslClient_Delete sslCert (sslClient c'))\<rparr>))) items c)
     = queue c"
  by (induction items arbitrary: c)
    (simp_all add: logged_def sslClient_Delete_frame split: option.split bool.split)

lemma ssl_loop_certs:
  "certs (sslClient (fold (\<lambda>sslCert c'.
       (case known sslCert of
          Some True \<Rightarrow> c'
        | _ \<Rightarrow> logged (Infof (msg sslCert))
                 (c'\<lparr>sslClient := snd (sslClient_Delete sslCert (sslClient c'))\<rparr>))) items c))
     = filter (\<lambda>n. \<not> (n \<in> set items \<and> known n \<noteq> Some True \<and> deleteErr (sslClient c) n = None))
         (certs (sslClient c))"
proof (induction items arbitrary: c)
  case Nil
  show ?case by simp
next
  case (Cons i items)
  show ?case
  proof (cases "known i = Some True")
    case True
    then show ?thesis
      by (auto simp: Cons.IH intro!: filter_cong)
  next
    case False
    then have step: "(case known i of Some True \<Rightarrow> c
        | _ \<Rightarrow> logged (Infof (msg i)) (c\<lparr>sslClient := snd (sslClient_Delete i (sslClient c))\<rparr>))
        = logged (Infof (msg i)) (c\<lparr>sslClient := snd (sslClient_Delete i (sslClient c))\<rparr>)"
      by (simp split: option.split bool.split)
    show ?thesis
      using False
      by (auto simp: step Cons.IH logged_def sslClient_Delete_certs sslClient_Delete_frame
          intro!: filter_cong)
  qed
qed

lemma ssl_loop_calls:
  "deleteCalls (sslClient (fold (\<lambda>sslCert c'.
       (case known sslCert of
          Some True \<Rightarrow> c'
        | _ \<Rightarrow> logged (Infof (msg sslCert))
                 (c'\<lparr>sslClient := snd (sslClient_Delete sslCert (sslClient c'))\<rparr>))) items c))
     = deleteCalls (sslClient c) @ filter (\<lambda>n. known n \<noteq> Some True) items"
proof (induction items arbitrary: c)
  case Nil
  show ?case by simp
next
  case (Cons i items)
  show ?case
  proof (cases "known i = Some True")
    case True
    then show ?thesis
      by (simp add: Cons.IH)
  next
    case False
    then have step: "(case known i of Some True \<Rightarrow> c
        | _ \<Rightarrow> logged (Infof (msg i)) (c\<lparr>sslClient := snd (sslClient_Delete i (sslClient c))\<rparr>))
        = logged (Infof (msg i)) (c\<lparr>sslClient := snd (sslClient_Delete i (sslClient c))\<rparr>)"
      by (simp split: option.split bool.split)
    show ?thesis
      using False
      by (simp add: step Cons.IH logged_def sslClient_Delete_calls)
  qed
qed

lemma enqueue_McertObj:
  "enqueue (McertObj m) c = c\<lparr>queue := queue c @ [fst (MetaNamespaceKeyFunc (McertObj m))]\<rparr>"
  by (simp add: enqueue_def MetaNamespaceKeyFunc_def)

lemma enqueue_loop:
  "queue (fold (\<lambda>(key, mcert) c'. enqueue (McertObj mcert) c') al c)
     = queue c @ map (\<lambda>e. fst (MetaNamespaceKeyFunc (McertObj (snd e)))) al \<and>
   state (fold (\<lambda>(key, mcert) c'. enqueue (McertObj mcert) c') al c) = state c \<and>
   sslClient (fold (\<lambda>(key, mcert) c'. enqueue (McertObj mcert) c') al c) = sslClient c"
  by (induction al arbitrary: c) (simp_all add: enqueue_McertObj split: prod.split)

lemma deleteObsoleteSslCertificates_fails:
  assumes "listErr (sslClient c) = Some err"
  shows "deleteObsoleteSslCertificates c = (Some err, c)"
  using assms by (simp add: deleteObsoleteSslCertificates_def sslClient_List_def Let_def)

lemma deleteObsoleteSslCertificates_ok:
  assumes "listErr (sslClient c) = None"
  shows "fst (deleteObsoleteSslCertificates c) = None"
    and "state (snd (deleteObsoleteSslCertificates c)) = state c"
    and "queue (snd (deleteObsoleteSslCertificates c)) = queue c"
    and "certs (sslClient (snd (deleteObsoleteSslCertificates c))) =
           filter (\<lambda>n. n \<in> snd ` set (state c) \<or> deleteErr (sslClient c) n \<noteq> None)
             (certs (sslClient c))"
    and "deleteCalls (sslClient (snd (deleteObsoleteSslCertificates c))) =
           deleteCalls (sslClient c) @
           filter (\<lambda>n. n \<notin> snd ` set (state c)) (certs (sslClient c))"
proof -
  let ?known = "map_of (fold (\<lambda>knownSslCert s. AList.update knownSslCert True s)
                  (GetAllSslCertificates (state c)) [])"
  let ?msg = "\<lambda>sslCert. ''Deleted '' @ sslCert @
                '' SslCertificate resource, because there is no such ssl certificate in state''"
  let ?loop = "fold (\<lambda>sslCert c'.
       (case ?known sslCert of
          Some True \<Rightarrow> c'
        | _ \<Rightarrow> logged (Infof (?msg sslCert))
                 (c'\<lparr>sslClient := snd (sslClient_Delete sslCert (sslClient c'))\<rparr>)))
       (certs (sslClient c)) c"
  have unfold: "deleteObsoleteSslCertificates c = (None, ?loop)"
    using assms by (simp add: deleteObsoleteSslCertificates_def sslClient_List_def Let_def)
  have known: "\<And>n. (?known n \<noteq> Some True) = (n \<notin> snd ` set (state c))"
    by (simp add: known_set GetAllSslCertificates_def)
  show "fst (deleteObsoleteSslCertificates c) = None"
    by (simp add: unfold)
  show "state (snd (deleteObsoleteSslCertificates c)) = state c"
    unfolding unfold snd_conv using ssl_loop_frame [where known = ?known and msg = ?msg and items = "certs (sslClient c)" and c = c]
    by blast
  show "queue (snd (deleteObsoleteSslCertificates c)) = queue c"
    unfolding unfold snd_conv using ssl_loop_frame [where known = ?known and msg = ?msg and items = "certs (sslClient c)" and c = c]
    by blast
  have "deleteCalls (sslClient ?loop) =
      deleteCalls (sslClient c) @ filter (\<lambda>n. ?known n \<noteq> Some True) (certs (sslClient c))"
    by (rule ssl_loop_calls)
  then show "deleteCalls (sslClient (snd (deleteObsoleteSslCertificates c))) =
           deleteCalls (sslClient c) @
           filter (\<lambda>n. n \<notin> snd ` set (state c)) (certs (sslClient c))"
    by (simp only: unfold snd_conv known)
  have "certs (sslClient ?loop) =
      filter (\<lambda>n. \<not> (n \<in> set (certs (sslClient c)) \<and> ?known n \<noteq> Some True \<and>
                        deleteErr (sslClient c) n = None)) (certs (sslClient c))"
    by (rule ssl_loop_certs)
  also have "\<dots> = filter (\<lambda>n. n \<in> snd ` set (state c) \<or> deleteErr (sslClient c) n \<noteq> None)
             (certs (sslClient c))"
    by (rule filter_cong) (auto simp: known)
  finally show "certs (sslClient (snd (deleteObsoleteSslCertificates c))) =
           filter (\<lambda>n. n \<in> snd ` set (state c) \<or> deleteErr (sslClient c) n \<noteq> None)
             (certs (sslClient c))"
    by (simp add: unfold)
qed

lemma cluster_map_of:
  "(map_of (fold (\<lambda>mcert result. AList.update (Name mcert) mcert result) mcerts []) k \<noteq> None)
     = (k \<in> Name ` set mcerts)"
proof -
  have "(map_of (fold (\<lambda>mcert result. AList.update (Name mcert) mcert result) mcerts []) k \<noteq> None)
      = (k \<in> fst ` set (fold (\<lambda>mcert result. AList.update (Name mcert) mcert result) mcerts []))"
    by (simp add: map_of_eq_None_iff)
  then show ?thesis by (simp add: fold_update_keys)
qed

lemma synchronizeAllMcerts_ok:
  assumes "lister c = (mcerts, None)" and "listErr (sslClient c) = None"
  shows "state (synchronizeAllMcerts rangeOrder c) =
           filter (\<lambda>e. fst e \<in> Name ` set mcerts) (state c)"
    and "certs (sslClient (synchronizeAllMcerts rangeOrder c)) =
           filter (\<lambda>n. n \<in> snd ` set (state (synchronizeAllMcerts rangeOrder c)) \<or>
                        deleteErr (sslClient c) n \<noteq> None)
             (certs (sslClient c))"
    and "deleteCalls (sslClient (synchronizeAllMcerts rangeOrder c)) =
           deleteCalls (sslClient c) @
           filter (\<lambda>n. n \<notin> snd ` set (state (synchronizeAllMcerts rangeOrder c)))
             (certs (sslClient c))"
    and "queue (synchronizeAllMcerts rangeOrder c) =
           queue c @ map (\<lambda>e. fst (MetaNamespaceKeyFunc (McertObj (snd e))))
                       (rangeOrder
                          (fold (\<lambda>mcert result. AList.update (Name mcert) mcert result) mcerts []))"
proof -
  let ?al = "fold (\<lambda>mcert result. AList.update (Name mcert) mcert result) mcerts []"
  let ?c1 = "deleteObsoleteMcertsFromState ?al c"
  have l1: "listErr (sslClient ?c1) = None"
    using assms(2) by (simp add: deleteObsoleteMcertsFromState_frame)
  obtain c2 where r: "deleteObsoleteSslCertificates ?c1 = (None, c2)"
    using deleteObsoleteSslCertificates_ok(1) [OF l1]
    by (cases "deleteObsoleteSslCertificates ?c1") simp
  have c2: "c2 = snd (deleteObsoleteSslCertificates ?c1)"
    by (simp add: r)
  have sync: "synchronizeAllMcerts rangeOrder c =
      fold (\<lambda>(key, mcert) c'. enqueue (McertObj mcert) c') (rangeOrder ?al) c2"
    by (simp add: synchronizeAllMcerts_def getAllMcertsInCluster_ok [OF assms(1)] Let_def r)
  have s1: "state ?c1 = filter (\<lambda>e. fst e \<in> Name ` set mcerts) (state c)"
    by (simp only: deleteObsoleteMcertsFromState_state cluster_map_of)
  have s2: "state c2 = state ?c1"
    unfolding c2 by (rule deleteObsoleteSslCertificates_ok(2) [OF l1])
  show st: "state (synchronizeAllMcerts rangeOrder c) =
      filter (\<lambda>e. fst e \<in> Name ` set mcerts) (state c)"
    by (simp add: sync enqueue_loop s2 s1)
  have "certs (sslClient c2) =
      filter (\<lambda>n. n \<in> snd ` set (state ?c1) \<or> deleteErr (sslClient ?c1) n \<noteq> None)
        (certs (sslClient ?c1))"
    unfolding c2 by (rule deleteObsoleteSslCertificates_ok(4) [OF l1])
  then show "certs (sslClient (synchronizeAllMcerts rangeOrder c)) =
           filter (\<lambda>n. n \<in> snd ` set (state (synchronizeAllMcerts rangeOrder c)) \<or>
                        deleteErr (sslClient c) n \<noteq> None)
             (certs (sslClient c))"
    by (simp add: s1 s2 sync enqueue_loop deleteObsoleteMcertsFromState_frame)
  have "deleteCalls (sslClient c2) =
      deleteCalls (sslClient ?c1) @
      filter (\<lambda>n. n \<notin> snd ` set (state ?c1)) (certs (sslClient ?c1))"
    unfolding c2 by (rule deleteObsoleteSslCertificates_ok(5) [OF l1])
  then show "deleteCalls (sslClient (synchronizeAllMcerts rangeOrder c)) =
           deleteCalls (sslClient c) @
           filter (\<lambda>n. n \<notin> snd ` set (state (synchronizeAllMcerts rangeOrder c)))
             (certs (sslClient c))"
    by (simp add: s1 s2 sync enqueue_loop deleteObsoleteMcertsFromState_frame)
  have "queue c2 = queue c"
    unfolding c2 using deleteObsoleteSslCertificates_ok(3) [OF l1]
    by (simp add: deleteObsoleteMcertsFromState_frame)
  then show "queue (synchronizeAllMcerts rangeOrder c) =
           queue c @ map (\<lambda>e. fst (MetaNamespaceKeyFunc (McertObj (snd e)))) (rangeOrder ?al)"
    by (simp add: sync enqueue_loop)
qed

subsection \<open>What one resync pass removes\<close>




subsection \<open>What one resync pass enqueues\<close>

text \<open>
  Claim C5 as stated fails at two inputs. In a cycle whose backend listing fails,
  \<open>ns/foo\<close> is listed, yet \<open>synchronizeAllMcerts\<close> returns after handling the error and
  enqueues nothing. In a cycle in which both listings succeed and \<open>ns/foo\<close> and
  \<open>other/foo\<close> are listed, the map \<open>allMcertsInCluster\<close> has the one entry \<open>foo\<close>, so only
  \<open>other/foo\<close> is enqueued and the key \<open>ns/foo\<close> is not; with a single entry there is one
  order to range in.
\<close>

theorem resync_enqueues_nothing_when_provider_listing_fails:
  "lister (controllerOf ([mcrtFoo], None) [(''foo'', ''cert-foo'')] [''cert-foo'']
             (Some (Other ''list failed'')) []) = ([mcrtFoo], None) \<and>
   queue (synchronizeAllMcerts (\<lambda>al. al)
     (controllerOf ([mcrtFoo], None) [(''foo'', ''cert-foo'')] [''cert-foo'']
             (Some (Other ''list failed'')) [])) = [] \<and>
   lister (controllerOf ([mcrtFoo, mcrtOtherFoo], None) [(''foo'', ''cert-foo'')] [''cert-foo'']
             None []) = ([mcrtFoo, mcrtOtherFoo], None) \<and>
   listErr (sslClient (controllerOf ([mcrtFoo, mcrtOtherFoo], None) [(''foo'', ''cert-foo'')]
             [''cert-foo''] None [])) = None \<and>
   fst (MetaNamespaceKeyFunc (McertObj mcrtFoo)) = ''ns/foo'' \<and>
   queue (synchronizeAllMcerts (\<lambda>al. al)
     (controllerOf ([mcrtFoo, mcrtOtherFoo], None) [(''foo'', ''cert-foo'')] [''cert-foo'']
             None [])) = [''other/foo'']"
  by code_simp

lemma fold_update_last:
  "map_of (fold (\<lambda>m r. AList.update (f m) (g m) r) ms r0) k =
     (if filter (\<lambda>m. f m = k) ms = [] then map_of r0 k
      else Some (g (last (filter (\<lambda>m. f m = k) ms))))"
  by (induction ms arbitrary: r0) (simp_all add: AList.update_conv')

lemma cluster_map_entry:
  assumes "(n, m) \<in> set (fold (\<lambda>mcert result. AList.update (Name mcert) mcert result) mcerts [])"
  shows "n = Name m" and "m = last (filter (\<lambda>m'. Name m' = Name m) mcerts)"
proof -
  let ?al = "fold (\<lambda>mcert result. AList.update (Name mcert) mcert result) mcerts []"
  from fold_update_entries [OF assms] show n: "n = Name m" by auto
  have d: "distinct (map fst ?al)"
    by (rule fold_update_distinct) simp
  have "map_of ?al n = Some m"
    using d assms by (rule map_of_is_SomeI)
  with fold_update_last [of Name "\<lambda>m. m" mcerts "[]" n]
  have "m = last (filter (\<lambda>m'. Name m' = n) mcerts)"
    by (auto split: if_splits)
  then show "m = last (filter (\<lambda>m'. Name m' = Name m) mcerts)"
    by (simp only: n)
qed

lemma cluster_map_distinct:
  assumes "distinct (map Name mcerts)"
  shows "fold (\<lambda>mcert result. AList.update (Name mcert) mcert result) mcerts []
           = map (\<lambda>m. (Name m, m)) mcerts"
  using fold_update_fresh [where f = Name and g = "\<lambda>m. m" and ms = mcerts and ?r0.0 = "[]"] assms
  by simp

lemma synchronizeAllMcerts_provider_fails:
  assumes "lister c = (mcerts, None)" and "listErr (sslClient c) = Some err"
  shows "queue (synchronizeAllMcerts rangeOrder c) = queue c"
proof -
  let ?al = "fold (\<lambda>mcert result. AList.update (Name mcert) mcert result) mcerts []"
  let ?c1 = "deleteObsoleteMcertsFromState ?al c"
  have l1: "listErr (sslClient ?c1) = Some err"
    using assms(2) by (simp add: deleteObsoleteMcertsFromState_frame)
  have "synchronizeAllMcerts rangeOrder c = logged (HandleError err) ?c1"
    by (simp add: synchronizeAllMcerts_def getAllMcertsInCluster_ok [OF assms(1)] Let_def
        deleteObsoleteSslCertificates_fails [OF l1])
  then show ?thesis
    by (simp add: logged_def deleteObsoleteMcertsFromState_frame)
qed

lemma ranged_cluster_map:
  assumes "mset (rangeOrder (fold (\<lambda>mcert result. AList.update (Name mcert) mcert result) mcerts []))
             = mset (fold (\<lambda>mcert result. AList.update (Name mcert) mcert result) mcerts [])"
  shows "distinct (map Name (map snd (rangeOrder
            (fold (\<lambda>mcert result. AList.update (Name mcert) mcert result) mcerts []))))"
    and "Name ` set (map snd (rangeOrder
            (fold (\<lambda>mcert result. AList.update (Name mcert) mcert result) mcerts [])))
           = Name ` set mcerts"
    and "\<forall>m\<in>set (map snd (rangeOrder
            (fold (\<lambda>mcert result. AList.update (Name mcert) mcert result) mcerts []))).
           m = last (filter (\<lambda>m'. Name m' = Name m) mcerts)"
    and "distinct (map Name mcerts) \<longrightarrow>
           mset (map snd (rangeOrder
             (fold (\<lambda>mcert result. AList.update (Name mcert) mcert result) mcerts [])))
           = mset mcerts"
proof -
  let ?al = "fold (\<lambda>mcert result. AList.update (Name mcert) mcert result) mcerts []"
  let ?ro = "rangeOrder ?al"
  have set_eq: "set ?ro = set ?al"
    using assms by (rule mset_eq_setD)
  have key: "\<And>e. e \<in> set ?ro \<Longrightarrow> Name (snd e) = fst e"
  proof -
    fix e
    assume "e \<in> set ?ro"
    then have "(fst e, snd e) \<in> set ?al"
      by (simp add: set_eq)
    from cluster_map_entry(1) [OF this] show "Name (snd e) = fst e"
      by simp
  qed
  have names: "map Name (map snd ?ro) = map fst ?ro"
    using key by simp
  have "mset (map fst ?ro) = mset (map fst ?al)"
    by (simp only: mset_map assms)
  moreover have "distinct (map fst ?al)"
    by (rule fold_update_distinct) simp
  ultimately have "distinct (map fst ?ro)"
    using mset_eq_imp_distinct_iff [of "map fst ?ro" "map fst ?al"] by simp
  then show "distinct (map Name (map snd ?ro))"
    by (simp only: names)
  have "Name ` set (map snd ?ro) = set (map Name (map snd ?ro))"
    by (simp only: set_map)
  also have "\<dots> = fst ` set ?al"
    by (simp only: names set_map set_eq)
  also have "\<dots> = Name ` set mcerts"
    by (simp add: fold_update_keys)
  finally show "Name ` set (map snd ?ro) = Name ` set mcerts" .
  show "\<forall>m\<in>set (map snd ?ro). m = last (filter (\<lambda>m'. Name m' = Name m) mcerts)"
  proof
    fix m
    assume "m \<in> set (map snd ?ro)"
    then obtain n where "(n, m) \<in> set ?al"
      using set_eq by auto
    then show "m = last (filter (\<lambda>m'. Name m' = Name m) mcerts)"
      by (rule cluster_map_entry(2))
  qed
  show "distinct (map Name mcerts) \<longrightarrow> mset (map snd ?ro) = mset mcerts"
  proof
    assume "distinct (map Name mcerts)"
    then have al: "?al = map (\<lambda>m. (Name m, m)) mcerts"
      by (rule cluster_map_distinct)
    have "mset (map snd ?ro) = mset (map snd ?al)"
      by (simp only: mset_map assms)
    also have "\<dots> = mset mcerts"
      by (simp add: al comp_def)
    finally show "mset (map snd ?ro) = mset mcerts" .
  qed
qed

text \<open>
  Claim C5, amended. Take a resync pass, the last loop ranging over the map in any order
  (\<open>rangeOrder\<close> permutes the entries). When both listings succeed, the keys handed to
  \<open>AddRateLimited\<close> in the pass are the keys of the resources \<open>ms\<close>, in the order of the
  calls, where \<open>ms\<close> has exactly one resource for each name that occurs in the listing,
  namely the one listed last under that name; and when no two listed resources share a
  name, \<open>ms\<close> is the listing itself up to order, so that every listed resource has its key
  handed over exactly once. When the listing of the backend fails, nothing is enqueued.
\<close>

theorem resync_enqueues_each_listed_name_once:
  assumes "lister c = (mcerts, None)" and "\<And>al. mset (rangeOrder al) = mset al"
  shows "(listErr (sslClient c) = None \<longrightarrow>
           (\<exists>ms. queue (synchronizeAllMcerts rangeOrder c) =
                   queue c @ map (\<lambda>m. fst (MetaNamespaceKeyFunc (McertObj m))) ms \<and>
                 distinct (map Name ms) \<and>
                 Name ` set ms = Name ` set mcerts \<and>
                 (\<forall>m\<in>set ms. m = last (filter (\<lambda>m'. Name m' = Name m) mcerts)) \<and>
                 (distinct (map Name mcerts) \<longrightarrow> mset ms = mset mcerts))) \<and>
         (listErr (sslClient c) \<noteq> None \<longrightarrow>
            queue (synchronizeAllMcerts rangeOrder c) = queue c)"
proof -
  let ?al = "fold (\<lambda>mcert result. AList.update (Name mcert) mcert result) mcerts []"
  let ?ms = "map snd (rangeOrder ?al)"
  have perm: "mset (rangeOrder ?al) = mset ?al"
    by (rule assms(2))
  have q: "listErr (sslClient c) = None \<Longrightarrow>
      queue (synchronizeAllMcerts rangeOrder c) =
        queue c @ map (\<lambda>m. fst (MetaNamespaceKeyFunc (McertObj m))) ?ms"
    using synchronizeAllMcerts_ok(4) [OF assms(1)] by (simp add: comp_def)
  have f: "listErr (sslClient c) \<noteq> None \<longrightarrow>
      queue (synchronizeAllMcerts rangeOrder c) = queue c"
    using synchronizeAllMcerts_provider_fails [OF assms(1)] by auto
  from q f ranged_cluster_map [where rangeOrder = rangeOrder and mcerts = mcerts, OF perm]
  show ?thesis by blast
qed

text \<open>
  C5 at a listing of two resources with different names, ranged over in the order of the
  listing and in the opposite order: both keys are enqueued, once each, either way.
\<close>

theorem resync_enqueues_each_listed_name_once_witness:
  "lister (controllerOf ([mcrtFoo, mcrtBar], None) [(''foo'', ''cert-foo'')] [''cert-foo''] None [])
     = ([mcrtFoo, mcrtBar], None) \<and>
   listErr (sslClient (controllerOf ([mcrtFoo, mcrtBar], None) [(''foo'', ''cert-foo'')] [''cert-foo'']
     None [])) = None \<and>
   distinct (map Name [mcrtFoo, mcrtBar]) \<and>
   (\<forall>al :: (string \<times> ManagedCertificate) list. mset (rev al) = mset al) \<and>
   mset (queue (synchronizeAllMcerts (\<lambda>al. al)
     (controllerOf ([mcrtFoo, mcrtBar], None) [(''foo'', ''cert-foo'')] [''cert-foo''] None [])))
     = {#''ns/foo'', ''other/bar''#} \<and>
   mset (queue (synchronizeAllMcerts rev
     (controllerOf ([mcrtFoo, mcrtBar], None) [(''foo'', ''cert-foo'')] [''cert-foo''] None [])))
     = {#''ns/foo'', ''other/bar''#}"
proof -
  let ?c = "controllerOf ([mcrtFoo, mcrtBar], None) [(''foo'', ''cert-foo'')] [''cert-foo''] None []"
  have l: "lister ?c = ([mcrtFoo, mcrtBar], None)" by (simp add: controllerOf_def)
  have p: "listErr (sslClient ?c) = None" by (simp add: controllerOf_def)
  have d: "distinct (map Name [mcrtFoo, mcrtBar])" by (simp add: mcrtFoo_def mcrtBar_def)
  have r: "\<And>al :: (string \<times> ManagedCertificate) list. mset (rev al) = mset al" by simp
  have i: "\<And>al :: (string \<times> ManagedCertificate) list. mset ((\<lambda>al. al) al) = mset al" by simp
  have k: "fst (MetaNamespaceKeyFunc (McertObj mcrtFoo)) = ''ns/foo''"
    "fst (MetaNamespaceKeyFunc (McertObj mcrtBar)) = ''other/bar''"
    by code_simp+
  have e: "queue ?c = []" by (simp add: controllerOf_def)
  from resync_enqueues_each_listed_name_once [OF l i] p d
  obtain ms where q1: "queue (synchronizeAllMcerts (\<lambda>al. al) ?c) =
        queue ?c @ map (\<lambda>m. fst (MetaNamespaceKeyFunc (McertObj m))) ms"
    and m1: "mset ms = mset [mcrtFoo, mcrtBar]"
    by blast
  from resync_enqueues_each_listed_name_once [OF l r] p d
  obtain ms' where q2: "queue (synchronizeAllMcerts rev ?c) =
        queue ?c @ map (\<lambda>m. fst (MetaNamespaceKeyFunc (McertObj m))) ms'"
    and m2: "mset ms' = mset [mcrtFoo, mcrtBar]"
    by blast
  have "mset (map (\<lambda>m. fst (MetaNamespaceKeyFunc (McertObj m))) ms) =
      mset (map (\<lambda>m. fst (MetaNamespaceKeyFunc (McertObj m))) [mcrtFoo, mcrtBar])"
    by (simp only: mset_map m1)
  then have a: "mset (queue (synchronizeAllMcerts (\<lambda>al. al) ?c)) = {#''ns/foo'', ''other/bar''#}"
    by (simp add: q1 e k)
  have "mset (map (\<lambda>m. fst (MetaNamespaceKeyFunc (McertObj m))) ms') =
      mset (map (\<lambda>m. fst (MetaNamespaceKeyFunc (McertObj m))) [mcrtFoo, mcrtBar])"
    by (simp only: mset_map m2)
  then have b: "mset (queue (synchronizeAllMcerts rev ?c)) = {#''ns/foo'', ''other/bar''#}"
    by (simp add: q2 e k)
  from l p d a b show ?thesis by simp
qed

subsection \<open>The keys of the state store and of the work queue\<close>

text \<open>
  Claim C4 as stated fails for a resource in a namespace: \<open>initializeState\<close> stores
  \<open>ns/foo\<close> under the key \<open>foo\<close>, \<open>enqueue\<close> pushes the key \<open>ns/foo\<close>, and the state
  store has no entry under \<open>ns/foo\<close>.
\<close>

theorem state_key_differs_from_queue_key:
  "state (snd (initializeState (controllerOf ([mcrtFoo], None) [] [] None [])))
     = [(''foo'', ''cert-foo'')] \<and>
   queue (enqueue (McertObj mcrtFoo) (controllerOf ([mcrtFoo], None) [] [] None []))
     = [''ns/foo''] \<and>
   state_Get ''ns/foo''
     (state (snd (initializeState (controllerOf ([mcrtFoo], None) [] [] None [])))) = None"
  by code_simp

text \<open>
  Claim C4, amended. \<open>initializeState\<close> stores every listed resource under its name alone:
  the keys of the state store afterwards are its former keys and the names of the listed
  resources. The resync pass keeps the entries whose key is the name of a listed resource.
  \<open>enqueue\<close> pushes \<open>namespace/name\<close> for a resource, and the name alone only
  when the namespace is empty; so the two keys of a resource are the same exactly when its
  namespace is empty.
\<close>

theorem state_is_keyed_by_name_queue_by_namespace_and_name:
  assumes "lister c = (mcerts, None)"
  shows "fst ` set (state (snd (initializeState c))) = fst ` set (state c) \<union> Name ` set mcerts \<and>
         state (deleteObsoleteMcertsFromState (fst (getAllMcertsInCluster c)) c) =
           filter (\<lambda>e. fst e \<in> Name ` set mcerts) (state c) \<and>
         (\<forall>m. queue (enqueue (McertObj m) c) =
                queue c @ [if Namespace m = [] then Name m else Namespace m @ ''/'' @ Name m]) \<and>
         (\<forall>m. (fst (MetaNamespaceKeyFunc (McertObj m)) = Name m) = (Namespace m = []))"
proof -
  have a: "fst ` set (state (snd (initializeState c))) = fst ` set (state c) \<union> Name ` set mcerts"
    by (rule initializeState_keys(2) [OF assms])
  have b: "\<forall>m. queue (enqueue (McertObj m) c) =
                queue c @ [if Namespace m = [] then Name m else Namespace m @ ''/'' @ Name m]"
    by (simp add: enqueue_def MetaNamespaceKeyFunc_def)
  have c: "\<forall>m. (fst (MetaNamespaceKeyFunc (McertObj m)) = Name m) = (Namespace m = [])"
  proof
    fix m :: ManagedCertificate
    have "length (Namespace m @ ''/'' @ Name m) \<noteq> length (Name m)" by simp
    then have "Namespace m @ ''/'' @ Name m \<noteq> Name m" by metis
    then show "(fst (MetaNamespaceKeyFunc (McertObj m)) = Name m) = (Namespace m = [])"
      by (simp add: MetaNamespaceKeyFunc_def)
  qed
  have r: "state (deleteObsoleteMcertsFromState (fst (getAllMcertsInCluster c)) c) =
           filter (\<lambda>e. fst e \<in> Name ` set mcerts) (state c)"
    by (simp only: getAllMcertsInCluster_ok [OF assms] fst_conv
        deleteObsoleteMcertsFromState_state cluster_map_of)
  from a r b c show ?thesis by blast
qed

text \<open>
  C4 at a listing of \<open>ns/foo\<close> and \<open>other/bar\<close>: the state store is keyed \<open>foo\<close> and
  \<open>bar\<close>, the queue receives \<open>other/bar\<close>.
\<close>

theorem state_is_keyed_by_name_queue_by_namespace_and_name_witness:
  "lister (controllerOf ([mcrtFoo, mcrtBar], None) [] [] None []) = ([mcrtFoo, mcrtBar], None) \<and>
   fst ` set (state (snd (initializeState (controllerOf ([mcrtFoo, mcrtBar], None) [] [] None []))))
     = {''foo'', ''bar''} \<and>
   queue (enqueue (McertObj mcrtBar) (controllerOf ([mcrtFoo, mcrtBar], None) [] [] None []))
     = [''other/bar'']"
proof -
  let ?c = "controllerOf ([mcrtFoo, mcrtBar], None) [] [] None []"
  have l: "lister ?c = ([mcrtFoo, mcrtBar], None)" by (simp add: controllerOf_def)
  show ?thesis
    using state_is_keyed_by_name_queue_by_namespace_and_name [OF l] l
    by (auto simp: controllerOf_def mcrtFoo_def mcrtBar_def)
qed

subsection \<open>A deletion the backend refuses\<close>

text \<open>
  Claim C7, at the input where it fails. The backend holds two certificates that no entry
  of the state store refers to and refuses to delete the first. A deletion is attempted
  for both and the second one goes through, as the claim says; but the error of the first
  appears nowhere: \<open>deleteObsoleteSslCertificates\<close> returns \<open>nil\<close>, hands nothing to
  \<open>runtime.HandleError\<close>, and logs "Deleted cert-orphan SslCertificate resource" for the
  certificate that is still there.
\<close>

theorem refused_orphan_deletion_is_logged_as_done:
  "deleteErr (sslClient (controllerOf ([], None) [] [''cert-orphan'', ''cert-other''] None
      [''cert-orphan''])) ''cert-orphan'' = Some (Other ''backend refused'') \<and>
   fst (deleteObsoleteSslCertificates (controllerOf ([], None) [] [''cert-orphan'', ''cert-other'']
      None [''cert-orphan''])) = None \<and>
   glog (snd (deleteObsoleteSslCertificates (controllerOf ([], None) [] [''cert-orphan'', ''cert-other'']
      None [''cert-orphan''])))
     = [Infof ''Deleted cert-orphan SslCertificate resource, because there is no such ssl certificate in state'',
        Infof ''Deleted cert-other SslCertificate resource, because there is no such ssl certificate in state''] \<and>
   certs (sslClient (snd (deleteObsoleteSslCertificates (controllerOf ([], None) []
      [''cert-orphan'', ''cert-other''] None [''cert-orphan'']))))
     = [''cert-orphan'']"
  by code_simp

section \<open>Properties of the start-up\<close>

text \<open>
  Claim C2 as stated fails for the ingress loops: with a synced cache and a lister that
  fails, \<open>initializeState\<close> fails, and the goroutines started are \<open>c.Mcert.Run\<close>,
  \<open>c.Ingress.Run\<close> and the ingress worker.
\<close>

theorem ingress_loops_start_although_initialization_fails:
  "fst (initializeState (Mcert \<lparr>Mcert = controllerOf ([], Some (Other ''lister failed'')) [] [] None [],
                               cacheSynced = True\<rparr>)) = Some (Other ''lister failed'') \<and>
   fst (snd (Controller_Run \<lparr>Mcert = controllerOf ([], Some (Other ''lister failed'')) [] [] None [],
                            cacheSynced = True\<rparr>))
     = [Go_Mcert_Run, Go_Ingress_Run, Go_runIngressWorker]"
  by code_simp

text \<open>
  Claim C2, amended. When \<open>initializeState\<close> fails, neither the worker loop nor the resync
  loop of the managed-certificate controller is started; and when the cache has synced,
  the wrapped error is what waits on \<open>errors\<close>, and \<open>c.Ingress.Run\<close> and the ingress
  worker have been started all the same.
\<close>

theorem failed_initialization_starts_no_mcert_loop:
  assumes "fst (initializeState (Mcert c)) = Some err"
  shows "Go_runWorker \<notin> set (fst (snd (Controller_Run c))) \<and>
         Go_synchronizeAllMcerts \<notin> set (fst (snd (Controller_Run c))) \<and>
         (cacheSynced c \<longrightarrow>
            fst (snd (snd (Controller_Run c))) = Some (Errorf ''Cnuld not intialize state: %v'' err) \<and>
            Go_Ingress_Run \<in> set (fst (snd (Controller_Run c))) \<and>
            Go_runIngressWorker \<in> set (fst (snd (Controller_Run c))))"
proof -
  obtain c1 where i: "initializeState (Mcert c) = (Some err, c1)"
    using assms by (cases "initializeState (Mcert c)") simp
  have r: "McertController_Run (Mcert c) =
      (Some (Errorf ''Cnuld not intialize state: %v'' err), [], c1\<lparr>queueShutDown := True\<rparr>)"
    by (simp add: McertController_Run_def i)
  show ?thesis
    by (simp add: Controller_Run_def r)
qed

text \<open>
  C2 at a controller whose lister fails.
\<close>

theorem failed_initialization_starts_no_mcert_loop_witness:
  "fst (initializeState (Mcert \<lparr>Mcert = controllerOf ([], Some (Other ''lister failed'')) [] [] None [],
                               cacheSynced = True\<rparr>)) = Some (Other ''lister failed'') \<and>
   Go_runWorker \<notin> set (fst (snd (Controller_Run
     \<lparr>Mcert = controllerOf ([], Some (Other ''lister failed'')) [] [] None [], cacheSynced = True\<rparr>))) \<and>
   Go_synchronizeAllMcerts \<notin> set (fst (snd (Controller_Run
     \<lparr>Mcert = controllerOf ([], Some (Other ''lister failed'')) [] [] None [], cacheSynced = True\<rparr>))) \<and>
   fst (snd (snd (Controller_Run
     \<lparr>Mcert = controllerOf ([], Some (Other ''lister failed'')) [] [] None [], cacheSynced = True\<rparr>)))
     = Some (Errorf ''Cnuld not intialize state: %v'' (Other ''lister failed''))"
proof -
  let ?c = "\<lparr>Mcert = controllerOf ([], Some (Other ''lister failed'')) [] [] None [],
             cacheSynced = True\<rparr>"
  have i: "fst (initializeState (Mcert ?c)) = Some (Other ''lister failed'')"
    by (simp add: initializeState_def controllerOf_def)
  show ?thesis
    using failed_initialization_starts_no_mcert_loop [OF i] i by simp
qed

section \<open>Properties of the schema\<close>

lemma domainRegex_nonempty: "domainRegex \<noteq> []"
  by (simp add: domainRegex_def)

lemma schema_of_versions:
  "schema_of ''v1beta1'' =
     Some (JSONSchemaProps [] [] [] [(''status'', statusSchema), (''spec'', specSchema maxDomains1)]
             None None None [])"
  "schema_of ''v1beta2'' =
     Some (JSONSchemaProps [] [] [] [(''status'', statusSchema), (''spec'', specSchema maxDomains100)]
             None None None [])"
  by (simp_all add: schema_of_def crd_def)

lemma validates_spec:
  "validates lib
     (JSONSchemaProps [] [] [] [(''status'', statusSchema), (''spec'', specSchema n)] None None None [])
     (mcrt_with_domains ds)
   = (int (length ds) \<le> n \<and> (\<forall>d\<in>set ds. length d \<le> 63 \<and> MatchString lib domainRegex d))"
  by (auto simp: mcrt_with_domains_def specSchema_def type_ok_def list_all_iff
      maxDomainLength_def domainRegex_nonempty)

text \<open>
  Claim C10, amended. The definition has the two versions \<open>v1beta1\<close> and \<open>v1beta2\<close>. A
  resource whose \<open>spec.domains\<close> is the list \<open>ds\<close> of strings is accepted by \<open>v1beta1\<close>
  exactly when \<open>ds\<close> has at most one element, and by \<open>v1beta2\<close> exactly when it has at most
  100, and every element has at most 63 characters and matches \<open>domainRegex\<close>; a resource
  whose \<open>spec\<close> has no \<open>domains\<close> is accepted by both. This holds for every
  regular-expression matcher and every format check.
\<close>

theorem schema_limits_domains:
  "map VersionName (Versions crd) = [''v1beta1'', ''v1beta2''] \<and>
   accepts lib ''v1beta1'' (mcrt_with_domains ds) =
     (length ds \<le> 1 \<and> (\<forall>d\<in>set ds. length d \<le> 63 \<and> MatchString lib domainRegex d)) \<and>
   accepts lib ''v1beta2'' (mcrt_with_domains ds) =
     (length ds \<le> 100 \<and> (\<forall>d\<in>set ds. length d \<le> 63 \<and> MatchString lib domainRegex d)) \<and>
   accepts lib ''v1beta1'' (JObject [(''spec'', JObject [])]) \<and>
   accepts lib ''v1beta2'' (JObject [(''spec'', JObject [])])"
proof -
  have v: "map VersionName (Versions crd) = [''v1beta1'', ''v1beta2'']"
    by (simp add: crd_def)
  have a: "accepts lib ''v1beta1'' (mcrt_with_domains ds) =
      (int (length ds) \<le> maxDomains1 \<and>
       (\<forall>d\<in>set ds. length d \<le> 63 \<and> MatchString lib domainRegex d))"
    by (simp only: accepts_def schema_of_versions option.case validates_spec)
  have b: "accepts lib ''v1beta2'' (mcrt_with_domains ds) =
      (int (length ds) \<le> maxDomains100 \<and>
       (\<forall>d\<in>set ds. length d \<le> 63 \<and> MatchString lib domainRegex d))"
    by (simp only: accepts_def schema_of_versions option.case validates_spec)
  have n1: "(int (length ds) \<le> maxDomains1) = (length ds \<le> 1)"
    by (simp add: maxDomains1_def)
  have n100: "(int (length ds) \<le> maxDomains100) = (length ds \<le> 100)"
    by (simp add: maxDomains100_def)
  have e: "accepts lib ''v1beta1'' (JObject [(''spec'', JObject [])]) \<and>
           accepts lib ''v1beta2'' (JObject [(''spec'', JObject [])])"
    by (simp add: accepts_def schema_of_versions specSchema_def type_ok_def)
  show ?thesis
    by (simp only: v a b n1 n100 e simp_thms)
qed

lemma matches_example_com: "matches domainRexp ''example.com''"
  by code_simp

lemma matches_a_example_com: "matches domainRexp ''a.example.com''"
  by code_simp

text \<open>
  C10 with the pattern matched as a regular expression: one domain passes both versions,
  two domains pass \<open>v1beta2\<close> only.
\<close>

theorem schema_limits_domains_witness:
  "accepts domainChecks ''v1beta1'' (mcrt_with_domains [''example.com'']) \<and>
   \<not> accepts domainChecks ''v1beta1'' (mcrt_with_domains [''example.com'', ''a.example.com'']) \<and>
   accepts domainChecks ''v1beta2'' (mcrt_with_domains [''example.com'', ''a.example.com''])"
  using schema_limits_domains [of domainChecks "[''example.com'']"]
    schema_limits_domains [of domainChecks "[''example.com'', ''a.example.com'']"]
    matches_example_com matches_a_example_com
  by (simp add: domainChecks_def)

text \<open>
  Claim C10 as stated fails for "exactly 1": \<open>MaxItems\<close> is an upper bound, and with no
  lower bound and no required property \<open>v1beta1\<close> accepts an empty list of domains, and a
  \<open>spec\<close> without \<open>domains\<close>.
\<close>

theorem schema_accepts_no_domain:
  "accepts domainChecks ''v1beta1'' (mcrt_with_domains []) \<and>
   accepts domainChecks ''v1beta1'' (JObject [(''spec'', JObject [])])"
  by code_simp

end
